theory Spec2Isabelle
  imports Main
begin

unbundle bit_operations_syntax

section \<open>GoHighLevel to CallTools contact sync\<close>

text \<open>
  A shallow embedding of the contact sync worker: the webhook verification service, the
  sync ledger (table \<open>synced_contacts\<close>), the two remote gateways, the sync service
  (\<open>syncContact\<close>, \<open>syncSingleContact\<close>, \<open>syncColdContacts\<close>, \<open>markAsCustomer\<close>) and the
  inbound handlers (\<open>GHLWebhook.handle\<close>, \<open>GHLWorkflow.handle\<close>).

  Conventions. A thrown \<open>Error\<close> is the left summand of a sum, carrying its message. A field
  that may be \<open>undefined\<close> or \<open>null\<close> is an \<open>option\<close>; where the code tells the two apart
  (\<open>!== undefined\<close>) the three-valued type \<open>js\<close> is used. Millisecond clock readings are
  integers; the ISO string that \<open>new Date().toISOString()\<close> renders is never empty and is
  stored as the reading it renders. Statements on the database are taken to succeed, save
  for binding \<open>undefined\<close>; the two remote platforms may fail on any request.
\<close>

subsection \<open>Strings\<close>

text \<open>Strings are byte strings; \<open>toLowerCase\<close> is modelled on the ASCII letters.\<close>

definition toLowerCase_char :: "char \<Rightarrow> char" where
  "toLowerCase_char c =
     (let n = (of_char c :: nat) in if 65 \<le> n \<and> n \<le> 90 then char_of (n + 32) else c)"

definition toLowerCase :: "string \<Rightarrow> string" where
  "toLowerCase s = map toLowerCase_char s"

fun startsWith :: "string \<Rightarrow> string \<Rightarrow> bool" where
  "startsWith s [] = True"
| "startsWith [] (p # ps) = False"
| "startsWith (c # cs) (p # ps) = (c = p \<and> startsWith cs ps)"

fun includes_str :: "string \<Rightarrow> string \<Rightarrow> bool" where
  "includes_str [] sub = (sub = [])"
| "includes_str (c # cs) sub = (startsWith (c # cs) sub \<or> includes_str cs sub)"

text \<open>\<open>s.split(',')\<close>: the pieces between commas, nothing trimmed.\<close>

fun split_comma :: "string \<Rightarrow> string list" where
  "split_comma [] = [[]]"
| "split_comma (c # cs) =
     (if c = CHR '','' then [] # split_comma cs
      else (case split_comma cs of [] \<Rightarrow> [[c]] | x # xs \<Rightarrow> (c # x) # xs))"

text \<open>\<open>a || b\<close> on optional strings: an absent or empty string is falsy.\<close>

definition truthy :: "string option \<Rightarrow> bool" where
  "truthy v = (case v of None \<Rightarrow> False | Some s \<Rightarrow> s \<noteq> [])"

definition or_else :: "string option \<Rightarrow> string option \<Rightarrow> string option" where
  "or_else a b = (if truthy a then a else b)"

definition or_string :: "string option \<Rightarrow> string \<Rightarrow> string" where
  "or_string a d = (case a of None \<Rightarrow> d | Some s \<Rightarrow> if s = [] then d else s)"

subsection \<open>Webhook verification service\<close>

definition maxAge :: int where
  "maxAge = 5 * 60 * 1000"

definition verifyTimestamp :: "int \<Rightarrow> int \<Rightarrow> bool" where
  \<comment> \<open>first argument: the reading of \<open>Date.now()\<close>\<close>
  "verifyTimestamp now timestamp =
     (let age = now - timestamp in
      if age < 0 then False
      else if age > maxAge then False
      else True)"

subsection \<open>Data model\<close>

datatype 'a js = Undefined | Null | Value 'a

datatype sync_status = Pending | Synced | Failed | Excluded

text \<open>A row of \<open>synced_contacts\<close> (interface \<open>SyncedContact\<close>), keyed by \<open>ghl_contact_id\<close>.\<close>

record SyncedContact =
  ghl_contact_id :: string
  calltools_contact_id :: "string option"
  first_name :: "string option"
  last_name :: "string option"
  phone :: "string option"
  email :: "string option"
  sync_status :: sync_status
  last_sync_at :: "int option"
  error_message :: "string option"
  is_customer :: int

text \<open>The \<open>updates\<close> argument of \<open>updateSyncRecord\<close>: a partial pick of the row's fields.\<close>

record updates =
  u_calltools_contact_id :: "string js"
  u_first_name :: "string js"
  u_last_name :: "string js"
  u_phone :: "string js"
  u_email :: "string js"
  u_sync_status :: "sync_status option"
  u_last_sync_at :: "int js"
  u_error_message :: "string js"

definition no_updates :: updates where
  "no_updates = \<lparr>u_calltools_contact_id = Undefined, u_first_name = Undefined,
     u_last_name = Undefined, u_phone = Undefined, u_email = Undefined,
     u_sync_status = None, u_last_sync_at = Undefined, u_error_message = Undefined\<rparr>"

text \<open>
  A contact as the sync service handles it (interface \<open>GHLContact\<close>). On the webhook path
  the object is assembled from the payload, so every field, the id included, may be
  \<open>undefined\<close>.
\<close>

record GHLContact =
  g_id :: "string option"
  g_name :: "string option"
  g_firstName :: "string option"
  g_lastName :: "string option"
  g_email :: "string option"
  g_phone :: "string option"
  g_tags :: "string list option"

record CallToolsContact =
  ct_first_name :: string
  ct_last_name :: string
  ct_phone_number :: string
  ct_email :: string
  ct_external_id :: string
  ct_bucket_id :: string

record SyncResult =
  total_processed :: nat
  synced :: nat
  updated :: nat
  excluded_customers :: nat
  failed :: nat
  bucket_name :: string
  bucket_id :: "string option"
  errors :: "(string option \<times> string) list"

text \<open>Requests sent to the dialer platform, in the order sent.\<close>

datatype ct_request =
    CreateContact CallToolsContact
  | UpdateContact string CallToolsContact
  | SearchContact string
  | AddToBucket string string
  | SearchTag string
  | CreateTag string
  | AddToTag string string

text \<open>
  The world the service runs in: the ledger, the CRM's contact list, the dialer platform
  (its contacts, bucket and tag membership, the ids it hands out, the log of requests it
  received) and the clock. \<open>ct_faults\<close> scripts the dialer's answers: each request takes the
  head, \<open>Some e\<close> being a non-2xx answer with error text \<open>e\<close>; an exhausted script answers 2xx.
\<close>

record world =
  ledger :: "string \<Rightarrow> SyncedContact option"
  ghl_contacts :: "GHLContact list"
  ghl_fault :: "string option"
  ct_contacts :: "(string \<times> CallToolsContact) list"
  ct_buckets :: "(string \<times> string) list"
  ct_tags :: "(string \<times> string list) list"
  ct_fresh :: "nat \<Rightarrow> string"
  ct_count :: nat
  ct_faults :: "string option list"
  ct_log :: "ct_request list"
  clock :: int

subsection \<open>Sync ledger\<close>

definition getSyncedContact :: "world \<Rightarrow> string \<Rightarrow> SyncedContact option" where
  "getSyncedContact w ghlContactId = ledger w ghlContactId"

text \<open>\<open>v || null\<close> on a nullable string column.\<close>

definition or_null :: "string option \<Rightarrow> string option" where
  "or_null v = (if truthy v then v else None)"

definition createOrUpdateSyncRecord :: "SyncedContact \<Rightarrow> world \<Rightarrow> world" where
  "createOrUpdateSyncRecord d w =
     (case getSyncedContact w (ghl_contact_id d) of
        Some existing \<Rightarrow>
          w\<lparr>ledger := (ledger w)(ghl_contact_id d \<mapsto>
              existing\<lparr>calltools_contact_id := calltools_contact_id d,
                first_name := first_name d, last_name := last_name d,
                phone := phone d, email := email d,
                sync_status := sync_status d, last_sync_at := last_sync_at d,
                error_message := error_message d, is_customer := is_customer d\<rparr>)\<rparr>
      | None \<Rightarrow>
          w\<lparr>ledger := (ledger w)(ghl_contact_id d \<mapsto>
              \<lparr>ghl_contact_id = ghl_contact_id d,
               calltools_contact_id = or_null (calltools_contact_id d),
               first_name = or_null (first_name d), last_name = or_null (last_name d),
               phone = or_null (phone d), email = or_null (email d),
               sync_status = sync_status d, last_sync_at = last_sync_at d,
               error_message = or_null (error_message d),
               is_customer = is_customer d\<rparr>)\<rparr>)"

text \<open>
  \<open>updates.f || null\<close> for a new row, and \<open>SET f = ?\<close> under \<open>updates.f !== undefined\<close>
  for an existing one. With no field given the \<open>UPDATE\<close> is not run, and the row is as
  before either way.
\<close>

fun js_or_null :: "string js \<Rightarrow> string option" where
  "js_or_null (Value s) = (if s = [] then None else Some s)"
| "js_or_null _ = None"

fun js_time_or_null :: "int js \<Rightarrow> int option" where
  "js_time_or_null (Value t) = Some t"
| "js_time_or_null _ = None"

fun set_field :: "'a js \<Rightarrow> 'a option \<Rightarrow> 'a option" where
  "set_field Undefined old = old"
| "set_field Null old = None"
| "set_field (Value v) old = Some v"

definition updateSyncRecord :: "string \<Rightarrow> updates \<Rightarrow> world \<Rightarrow> world" where
  "updateSyncRecord ghlContactId u w =
     (case getSyncedContact w ghlContactId of
        None \<Rightarrow>
          createOrUpdateSyncRecord
            \<lparr>ghl_contact_id = ghlContactId,
             calltools_contact_id = js_or_null (u_calltools_contact_id u),
             first_name = js_or_null (u_first_name u),
             last_name = js_or_null (u_last_name u),
             phone = js_or_null (u_phone u),
             email = js_or_null (u_email u),
             sync_status = (case u_sync_status u of None \<Rightarrow> Pending | Some s \<Rightarrow> s),
             last_sync_at = js_time_or_null (u_last_sync_at u),
             error_message = js_or_null (u_error_message u),
             is_customer = 0\<rparr> w
      | Some existing \<Rightarrow>
          w\<lparr>ledger := (ledger w)(ghlContactId \<mapsto>
              existing\<lparr>calltools_contact_id :=
                  set_field (u_calltools_contact_id u) (calltools_contact_id existing),
                first_name := set_field (u_first_name u) (first_name existing),
                last_name := set_field (u_last_name u) (last_name existing),
                phone := set_field (u_phone u) (phone existing),
                email := set_field (u_email u) (email existing),
                sync_status :=
                  (case u_sync_status u of None \<Rightarrow> sync_status existing | Some s \<Rightarrow> s),
                last_sync_at := set_field (u_last_sync_at u) (last_sync_at existing),
                error_message := set_field (u_error_message u) (error_message existing)\<rparr>)\<rparr>)"

definition markAsCustomer :: "string \<Rightarrow> world \<Rightarrow> world" where
  "markAsCustomer ghlContactId w =
     (let w1 = updateSyncRecord ghlContactId (no_updates\<lparr>u_sync_status := Some Excluded\<rparr>) w
      in (case ledger w1 ghlContactId of
            None \<Rightarrow> w1
          | Some row \<Rightarrow> w1\<lparr>ledger := (ledger w1)(ghlContactId \<mapsto> row\<lparr>is_customer := 1\<rparr>)\<rparr>))"

subsection \<open>Remote dialer gateway (\<open>CallToolsClient\<close>)\<close>

text \<open>One \<open>fetch\<close>: the request is logged and the next scripted answer is taken.\<close>

definition request :: "ct_request \<Rightarrow> world \<Rightarrow> string option \<times> world" where
  "request r w =
     (case ct_faults w of
        [] \<Rightarrow> (None, w\<lparr>ct_log := ct_log w @ [r]\<rparr>)
      | f # fs \<Rightarrow> (f, w\<lparr>ct_log := ct_log w @ [r], ct_faults := fs\<rparr>))"

definition createContact :: "CallToolsContact \<Rightarrow> world \<Rightarrow> (string + string) \<times> world" where
  \<comment> \<open>returns the id of the created contact\<close>
  "createContact c w =
     (case request (CreateContact c) w of
        (Some e, w1) \<Rightarrow> (Inl e, w1)
      | (None, w1) \<Rightarrow>
          (let newId = ct_fresh w1 (ct_count w1)
           in (Inr newId, w1\<lparr>ct_contacts := ct_contacts w1 @ [(newId, c)],
                              ct_count := Suc (ct_count w1)\<rparr>)))"

definition updateContact ::
  "string \<Rightarrow> CallToolsContact \<Rightarrow> world \<Rightarrow> (string + unit) \<times> world" where
  "updateContact contactId c w =
     (case request (UpdateContact contactId c) w of
        (Some e, w1) \<Rightarrow> (Inl e, w1)
      | (None, w1) \<Rightarrow>
          (Inr (), w1\<lparr>ct_contacts :=
             map (\<lambda>(i, d). if i = contactId then (i, c) else (i, d)) (ct_contacts w1)\<rparr>))"

definition is_separator :: "char \<Rightarrow> bool" where
  \<comment> \<open>the class \<open>[\s\-\(\)]\<close> on byte strings: of the white space \<open>\s\<close> matches, the six
      ASCII characters; the Unicode spaces beyond ASCII are not single bytes\<close>
  "is_separator c = (c \<in> set [CHR '' '', CHR 0x09, CHR 0x0A, CHR 0x0B, CHR 0x0C, CHR 0x0D,
                              CHR ''-'', CHR ''('', CHR '')''])"

definition searchPhone :: "string \<Rightarrow> string" where
  "searchPhone phoneNumber =
     (if startsWith phoneNumber ''+'' then phoneNumber
      else (let digitsOnly = filter (\<lambda>c. \<not> is_separator c) phoneNumber
            in if length digitsOnly = 10 then ''+1'' @ digitsOnly
               else if length digitsOnly = 11 \<and> startsWith digitsOnly ''1'' then ''+'' @ digitsOnly
               else ''+'' @ digitsOnly))"

text \<open>
  The lookup by phone number. With no phone number it answers \<open>null\<close> without a request;
  every error is caught and answered \<open>null\<close>. The platform is taken to answer with the
  contacts stored under the number asked for, numbers compared in their E.164 form.
\<close>

definition getContactByExternalId ::
  "string \<Rightarrow> string option \<Rightarrow> world \<Rightarrow> string option \<times> world" where
  "getContactByExternalId externalId phoneNumber w =
     (case phoneNumber of
        None \<Rightarrow> (None, w)
      | Some pn \<Rightarrow>
          (if pn = [] then (None, w)
           else (let sp = searchPhone pn
                 in (case request (SearchContact sp) w of
                       (Some e, w1) \<Rightarrow> (None, w1)
                     | (None, w1) \<Rightarrow>
                         (case filter (\<lambda>(i, d). searchPhone (ct_phone_number d) = sp)
                                 (ct_contacts w1) of
                            [] \<Rightarrow> (None, w1)
                          | (i, d) # _ \<Rightarrow> (Some i, w1))))))"

definition addContactToBucket :: "string \<Rightarrow> string \<Rightarrow> world \<Rightarrow> (string + unit) \<times> world" where
  "addContactToBucket contactId bucketId w =
     (case request (AddToBucket contactId bucketId) w of
        (Some e, w1) \<Rightarrow> (Inl e, w1)
      | (None, w1) \<Rightarrow> (Inr (), w1\<lparr>ct_buckets := ct_buckets w1 @ [(bucketId, contactId)]\<rparr>))"

text \<open>
  Find the tag or create it, then add the contact to it. Every error is caught and only
  logged, so the method never throws.
\<close>

definition addToTagMembers :: "string \<Rightarrow> string \<Rightarrow> world \<Rightarrow> world" where
  "addToTagMembers contactId tagName w =
     (case request (AddToTag contactId tagName) w of
        (Some e, w1) \<Rightarrow> w1
      | (None, w1) \<Rightarrow>
          w1\<lparr>ct_tags := map (\<lambda>(n, ms). if n = tagName then (n, ms @ [contactId]) else (n, ms))
                             (ct_tags w1)\<rparr>)"

definition addTagToContact :: "string \<Rightarrow> string \<Rightarrow> world \<Rightarrow> world" where
  "addTagToContact contactId tagName w =
     (case request (SearchTag tagName) w of
        (Some e, w1) \<Rightarrow> w1
      | (None, w1) \<Rightarrow>
          (if tagName \<in> set (map fst (ct_tags w1)) then addToTagMembers contactId tagName w1
           else (case request (CreateTag tagName) w1 of
                   (Some e, w2) \<Rightarrow> w2
                 | (None, w2) \<Rightarrow>
                     addToTagMembers contactId tagName
                       (w2\<lparr>ct_tags := ct_tags w2 @ [(tagName, [])]\<rparr>))))"

subsection \<open>Contact classification\<close>

definition lower_tags :: "GHLContact \<Rightarrow> string list" where
  \<comment> \<open>\<open>Array.isArray(tags) ? tags.map(t => t.toLowerCase()) : []\<close>\<close>
  "lower_tags g = (case g_tags g of None \<Rightarrow> [] | Some ts \<Rightarrow> map toLowerCase ts)"

definition isCustomer :: "string list \<Rightarrow> bool" where
  "isCustomer tags =
     list_ex (\<lambda>tag. includes_str tag ''customer'' \<or> includes_str tag ''client'' \<or>
                     includes_str tag ''won'' \<or> includes_str tag ''purchased'') tags"

definition isCold :: "string list \<Rightarrow> bool" where
  "isCold tags =
     list_ex (\<lambda>tag. tag = ''cold lead'' \<or> includes_str tag ''cold'' \<or>
                     includes_str tag ''new lead'' \<or> includes_str tag ''prospect'') tags"

subsection \<open>Remote CRM gateway (\<open>GoHighLevelClient\<close>)\<close>

definition getContact :: "world \<Rightarrow> string \<Rightarrow> string + GHLContact" where
  "getContact w contactId =
     (case ghl_fault w of
        Some e \<Rightarrow> Inl e
      | None \<Rightarrow>
          (case find (\<lambda>g. g_id g = Some contactId) (ghl_contacts w) of
             None \<Rightarrow> Inl ''GoHighLevel API error: 404 - ''
           | Some g \<Rightarrow> Inr g))"

text \<open>
  The paging loop of \<open>getColdContactsExcludingCustomers\<close>: pages of 100 are fetched until
  one comes back short. The CRM answers \<open>getContacts({limit, skip})\<close> with that slice of
  its contact list.
\<close>

function fetch_pages :: "GHLContact list \<Rightarrow> nat \<Rightarrow> GHLContact list \<Rightarrow> GHLContact list" where
  "fetch_pages remote skip allContacts =
     (let page = take 100 (drop skip remote)
      in if page \<noteq> [] then
           (if length page = 100 then fetch_pages remote (skip + 100) (allContacts @ page)
            else allContacts @ page)
         else allContacts)"
  by pat_completeness auto
termination
  by (relation "measure (\<lambda>(remote, skip, allContacts). length remote - skip)") auto

definition getColdContactsExcludingCustomers :: "world \<Rightarrow> string + GHLContact list" where
  "getColdContactsExcludingCustomers w =
     (case ghl_fault w of
        Some e \<Rightarrow> Inl e
      | None \<Rightarrow>
          Inr (filter (\<lambda>contact.
                 (let tags = (case g_tags contact of None \<Rightarrow> [] | Some ts \<Rightarrow> map toLowerCase ts)
                  in if isCustomer tags then False else isCold tags))
               (fetch_pages (ghl_contacts w) 0 [])))"

subsection \<open>Sync service (\<open>ContactSyncService\<close>)\<close>

definition synced_updates :: "string \<Rightarrow> CallToolsContact \<Rightarrow> int \<Rightarrow> updates" where
  "synced_updates contactId c now =
     \<lparr>u_calltools_contact_id = Value contactId,
      u_first_name = Value (ct_first_name c), u_last_name = Value (ct_last_name c),
      u_phone = Value (ct_phone_number c), u_email = Value (ct_email c),
      u_sync_status = Some Synced, u_last_sync_at = Value now, u_error_message = Null\<rparr>"

definition failed_updates :: "string \<Rightarrow> updates" where
  "failed_updates msg = no_updates\<lparr>u_sync_status := Some Failed, u_error_message := Value msg\<rparr>"

text \<open>
  The \<open>try\<close> block of \<open>syncContact\<close>. The lookup is called with the contact id alone, the
  phone number is not handed over.
\<close>

definition syncContact_try ::
  "string \<Rightarrow> CallToolsContact \<Rightarrow> SyncResult \<Rightarrow> string \<Rightarrow> world \<Rightarrow> (string + SyncResult) \<times> world"
where
  "syncContact_try gid c res bucketId w =
     (case getContactByExternalId gid None w of
        (Some existingId, w0) \<Rightarrow>
          (case updateContact existingId c w0 of
             (Inl e, w1) \<Rightarrow> (Inl e, w1)
           | (Inr u, w1) \<Rightarrow>
               (case (if bucketId \<noteq> [] then addContactToBucket existingId bucketId w1
                      else (Inr (), w1)) of
                  (Inl e, w2) \<Rightarrow> (Inl e, w2)
                | (Inr u, w2) \<Rightarrow>
                    (let w3 = addTagToContact existingId ''ACA Cold lead'' w2;
                         w4 = updateSyncRecord gid (synced_updates existingId c (clock w3)) w3
                     in (Inr (res\<lparr>updated := updated res + 1\<rparr>), w4))))
      | (None, w0) \<Rightarrow>
          (case createContact c w0 of
             (Inl e, w1) \<Rightarrow> (Inl e, w1)
           | (Inr createdId, w1) \<Rightarrow>
               (case (if bucketId \<noteq> [] then addContactToBucket createdId bucketId w1
                      else (Inr (), w1)) of
                  (Inl e, w2) \<Rightarrow> (Inl e, w2)
                | (Inr u, w2) \<Rightarrow>
                    (let w3 = addTagToContact createdId ''ACA Cold lead'' w2;
                         w4 = createOrUpdateSyncRecord
                                \<lparr>ghl_contact_id = gid,
                                 calltools_contact_id = Some createdId,
                                 first_name = Some (ct_first_name c),
                                 last_name = or_null (Some (ct_last_name c)),
                                 phone = Some (ct_phone_number c),
                                 email = or_null (Some (ct_email c)),
                                 sync_status = Synced,
                                 last_sync_at = Some (clock w3),
                                 error_message = None,
                                 is_customer = 0\<rparr> w3
                     in (Inr (res\<lparr>synced := synced res + 1\<rparr>), w4)))))"

definition d1_type_error :: string where
  \<comment> \<open>what the database binding throws when \<open>undefined\<close> is bound to a statement\<close>
  "d1_type_error = ''D1_TYPE_ERROR: Type '' @ [CHR 0x27] @ ''undefined'' @ [CHR 0x27] @
     '' not supported for value '' @ [CHR 0x27] @ ''undefined'' @ [CHR 0x27]"

text \<open>
  \<open>syncContact\<close> mutates \<open>result\<close> and may throw: the model returns the error thrown, if
  any, with the result and the world as they are then. A contact without an id fails at
  the first ledger query.
\<close>

definition syncContact ::
  "GHLContact \<Rightarrow> SyncResult \<Rightarrow> string \<Rightarrow> world \<Rightarrow> (string option \<times> SyncResult) \<times> world"
where
  "syncContact ghlContact res bucketId w =
     (case g_id ghlContact of
        None \<Rightarrow> ((Some d1_type_error, res), w)
      | Some gid \<Rightarrow>
          (if (case getSyncedContact w gid of None \<Rightarrow> False | Some r \<Rightarrow> is_customer r = 1)
           then ((None, res\<lparr>excluded_customers := excluded_customers res + 1\<rparr>), w)
           else
             (let phone = or_string (g_phone ghlContact) []
              in if phone = [] then
                   ((None, res\<lparr>failed := failed res + 1\<rparr>),
                    updateSyncRecord gid (failed_updates ''No phone number'') w)
                 else
                   (let callToolsContact =
                          \<lparr>ct_first_name =
                             or_string (or_else (g_firstName ghlContact) (g_name ghlContact))
                               ''Unknown'',
                           ct_last_name = or_string (g_lastName ghlContact) [],
                           ct_phone_number = phone,
                           ct_email = or_string (g_email ghlContact) [],
                           ct_external_id = gid,
                           ct_bucket_id = bucketId\<rparr>
                    in (case syncContact_try gid callToolsContact res bucketId w of
                          (Inr res', w') \<Rightarrow> ((None, res'), w')
                        | (Inl e, w') \<Rightarrow>
                            ((Some e, res), updateSyncRecord gid (failed_updates e) w'))))))"

datatype action = ASynced | AUpdated | AExcluded | AFailed

record outcome =
  o_success :: bool
  o_contact_id :: string
  o_action :: action
  o_bucket_id :: "string option"
  o_error :: "string option"

text \<open>
  The webhook payload, typed as the handlers' schemas declare it: the id aliases and the
  contact fields are optional strings, \<open>p_contact\<close> is \<open>contact?.id\<close> when there is a
  \<open>contact\<close>. \<open>tags\<close> is a comma separated string on the webhook path; any other
  truthy value has no \<open>split\<close>.
\<close>

datatype tags_field = TagsAbsent | TagsString string | TagsOther

record webhook_data =
  p_id :: "string option"
  p_contactId :: "string option"
  p_contact_id :: "string option"
  p_contact :: "string option option"
  p_type :: "string option"
  p_location_id :: "string option"
  p_timestamp :: "int option"
  p_first_name :: "string option"
  p_last_name :: "string option"
  p_full_name :: "string option"
  p_email :: "string option"
  p_phone :: "string option"
  p_tags :: tags_field

definition resolve_contact :: "string \<Rightarrow> webhook_data option \<Rightarrow> world \<Rightarrow> string + GHLContact" where
  "resolve_contact ghlContactId webhookContactData w =
     (case webhookContactData of
        Some d \<Rightarrow>
          (case p_tags d of
             TagsOther \<Rightarrow> Inl ''webhookContactData.tags.split is not a function''
           | TagsAbsent \<Rightarrow>
               Inr \<lparr>g_id = p_contact_id d, g_name = p_full_name d, g_firstName = p_first_name d,
                    g_lastName = p_last_name d, g_email = p_email d, g_phone = p_phone d,
                    g_tags = Some []\<rparr>
           | TagsString ts \<Rightarrow>
               Inr \<lparr>g_id = p_contact_id d, g_name = p_full_name d, g_firstName = p_first_name d,
                    g_lastName = p_last_name d, g_email = p_email d, g_phone = p_phone d,
                    g_tags = Some (if ts = [] then [] else split_comma ts)\<rparr>)
      | None \<Rightarrow> getContact w ghlContactId)"

definition coldLeadsBucket :: string where
  "coldLeadsBucket = ''11237''"

definition syncSingleContact :: "string \<Rightarrow> webhook_data option \<Rightarrow> world \<Rightarrow> outcome \<times> world" where
  "syncSingleContact ghlContactId webhookContactData w =
     (case resolve_contact ghlContactId webhookContactData w of
        Inl e \<Rightarrow>
          (\<lparr>o_success = False, o_contact_id = ghlContactId, o_action = AFailed,
            o_bucket_id = None, o_error = Some e\<rparr>, w)
      | Inr ghlContact \<Rightarrow>
          (let tags = lower_tags ghlContact
           in if isCustomer tags then
                (\<lparr>o_success = True, o_contact_id = ghlContactId, o_action = AExcluded,
                  o_bucket_id = None, o_error = None\<rparr>, markAsCustomer ghlContactId w)
              else if \<not> isCold tags then
                (\<lparr>o_success = True, o_contact_id = ghlContactId, o_action = AExcluded,
                  o_bucket_id = None, o_error = Some ''Contact does not have cold lead tag''\<rparr>, w)
              else
                (let result = \<lparr>total_processed = 1, synced = 0, updated = 0,
                               excluded_customers = 0, failed = 0, bucket_name = ''Cold Leads'',
                               bucket_id = Some coldLeadsBucket, errors = []\<rparr>
                 in (case syncContact ghlContact result coldLeadsBucket w of
                       ((Some e, res), w') \<Rightarrow>
                         (\<lparr>o_success = False, o_contact_id = ghlContactId, o_action = AFailed,
                           o_bucket_id = None, o_error = Some e\<rparr>, w')
                     | ((None, res), w') \<Rightarrow>
                         (\<lparr>o_success = (failed res = 0), o_contact_id = ghlContactId,
                           o_action = (if synced res > 0 then ASynced
                                       else if updated res > 0 then AUpdated else AFailed),
                           o_bucket_id = Some coldLeadsBucket,
                           o_error = (case errors res of [] \<Rightarrow> None | (i, e) # es \<Rightarrow> Some e)\<rparr>,
                          w')))))"

text \<open>The loop of \<open>syncColdContacts\<close>: an error thrown for one contact is caught and counted.\<close>

fun sync_each :: "GHLContact list \<Rightarrow> SyncResult \<Rightarrow> string \<Rightarrow> world \<Rightarrow> SyncResult \<times> world" where
  "sync_each [] res bucketId w = (res, w)"
| "sync_each (ghlContact # rest) res bucketId w =
     (case syncContact ghlContact res bucketId w of
        ((None, res'), w') \<Rightarrow> sync_each rest res' bucketId w'
      | ((Some e, res'), w') \<Rightarrow>
          sync_each rest
            (res'\<lparr>failed := failed res' + 1, errors := errors res' @ [(g_id ghlContact, e)]\<rparr>)
            bucketId w')"

definition syncColdContacts :: "world \<Rightarrow> (string + SyncResult) \<times> world" where
  "syncColdContacts w =
     (case getColdContactsExcludingCustomers w of
        Inl e \<Rightarrow> (Inl e, w)
      | Inr coldContacts \<Rightarrow>
          (let result = \<lparr>total_processed = length coldContacts, synced = 0, updated = 0,
                         excluded_customers = 0, failed = 0, bucket_name = ''Cold Leads'',
                         bucket_id = Some coldLeadsBucket, errors = []\<rparr>
           in (case sync_each coldContacts result coldLeadsBucket w of
                 (res, w') \<Rightarrow> (Inr res, w'))))"

subsection \<open>Signature verification\<close>

text \<open>
  \<open>constantTimeCompare\<close>: the lengths are compared, then the character codes are XORed
  pairwise and ORed together.
\<close>

definition constantTimeCompare :: "string \<Rightarrow> string \<Rightarrow> bool" where
  "constantTimeCompare a b =
     (if length a \<noteq> length b then False
      else fold (\<lambda>(x, y) result. result OR ((of_char x :: nat) XOR of_char y)) (zip a b) 0 = 0)"

text \<open>
  What the handlers take from the platform they run on: the HMAC-SHA256 of a payload under
  a key, as lower-case hex, and \<open>JSON.parse\<close>. A parsed body is a syntax error, \<open>null\<close>,
  a value without properties of its own names (number, string, boolean, array), or an object.
\<close>

datatype parsed = SyntaxError | JsonNull | JsonPrimitive | JsonObject webhook_data

record runtime =
  HMAC_SHA256_hex :: "string \<Rightarrow> string \<Rightarrow> string"
  JSON_parse :: "string \<Rightarrow> parsed"

definition verifySignature :: "runtime \<Rightarrow> string \<Rightarrow> string \<Rightarrow> string option \<Rightarrow> bool" where
  "verifySignature rt webhookSecret payload signature =
     (case signature of
        None \<Rightarrow> False
      | Some sg \<Rightarrow>
          (if sg = [] then False
           else constantTimeCompare sg (HMAC_SHA256_hex rt webhookSecret payload)))"

subsection \<open>Inbound handlers\<close>

record env =
  GHL_WEBHOOK_SECRET :: "string option"
  GHL_API_KEY :: "string option"
  CALLTOOLS_API_KEY :: "string option"

record http_request =
  rawBody :: string
  x_ghl_signature :: "string option"

record response =
  status :: nat
  r_success :: bool
  r_message :: "string option"
  r_error :: "string option"
  r_data :: "(string \<times> action \<times> string option) option"

definition reject :: "nat \<Rightarrow> string \<Rightarrow> response" where
  \<comment> \<open>\<open>c.json({success: false, message}, status)\<close>\<close>
  "reject code msg =
     \<lparr>status = code, r_success = False, r_message = Some msg, r_error = None, r_data = None\<rparr>"

definition reject_error :: "nat \<Rightarrow> string \<Rightarrow> response" where
  \<comment> \<open>\<open>c.json({success: false, error}, status)\<close>\<close>
  "reject_error code msg =
     \<lparr>status = code, r_success = False, r_message = None, r_error = Some msg, r_data = None\<rparr>"

fun action_text :: "action \<Rightarrow> string" where
  "action_text ASynced = ''synced''"
| "action_text AUpdated = ''updated''"
| "action_text AExcluded = ''excluded''"
| "action_text AFailed = ''failed''"

definition sync_response :: "string \<Rightarrow> outcome \<Rightarrow> response" where
  "sync_response suffix result =
     \<lparr>status = 200, r_success = o_success result,
      r_message = Some (if o_success result
                        then ''Contact '' @ action_text (o_action result) @ '' successfully'' @ suffix
                        else ''Failed to sync contact: '' @
                             (case o_error result of None \<Rightarrow> ''undefined'' | Some e \<Rightarrow> e)),
      r_error = None,
      r_data = Some (o_contact_id result, o_action result, o_bucket_id result)\<rparr>"

text \<open>
  The signature gate of \<open>GHLWebhook.handle\<close>, the same in both revisions of the handler:
  with a secret configured and no signature header the handler warns and proceeds; only a
  signature that is present and does not verify is rejected.
\<close>

definition signature_rejected :: "runtime \<Rightarrow> env \<Rightarrow> http_request \<Rightarrow> bool" where
  "signature_rejected rt e req =
     (case GHL_WEBHOOK_SECRET e of
        None \<Rightarrow> False
      | Some secret \<Rightarrow>
          (if secret = [] then False
           else (case or_null (x_ghl_signature req) of
                   None \<Rightarrow> False
                 | Some sg \<Rightarrow> \<not> verifySignature rt secret (rawBody req) (Some sg))))"

definition contact_dot_id :: "webhook_data \<Rightarrow> string option" where
  \<comment> \<open>\<open>contact?.id\<close>\<close>
  "contact_dot_id d = (case p_contact d of None \<Rightarrow> None | Some i \<Rightarrow> i)"

definition missing_key_error :: string where
  \<comment> \<open>thrown by the constructor of \<open>CallToolsClient\<close> when the key is empty or missing\<close>
  "missing_key_error = ''CallTools API key is required but was not provided. Check CALLTOOLS_API_KEY environment variable.''"

definition null_property_error :: "string \<Rightarrow> string" where
  \<comment> \<open>the \<open>TypeError\<close> of reading the named property of \<open>null\<close>\<close>
  "null_property_error prop =
     ''Cannot read properties of null (reading '' @ [CHR 0x27] @ prop @ [CHR 0x27] @ '')''"

text \<open>
  \<open>GHLWebhook.handle\<close>, the revision that hands the payload to the sync service. The
  schema check is logged only, and a validated object carries the fields of the parsed
  one, so the second half of the \<open>||\<close> chain, over \<open>webhookData\<close>, repeats the first.
\<close>

definition GHLWebhook_handle ::
  "runtime \<Rightarrow> env \<Rightarrow> http_request \<Rightarrow> world \<Rightarrow> response \<times> world" where
  "GHLWebhook_handle rt e req w =
     (if signature_rejected rt e req then (reject 401 ''Invalid webhook signature'', w)
      else
        (case JSON_parse rt (rawBody req) of
           SyntaxError \<Rightarrow> (reject 400 ''Invalid JSON payload'', w)
         | JsonNull \<Rightarrow> (reject 500 (null_property_error ''id''), w)
         | JsonPrimitive \<Rightarrow> (reject 400 ''No contact ID found in webhook payload'', w)
         | JsonObject webhookData \<Rightarrow>
             (let contactId =
                    or_else (p_id webhookData) (or_else (p_contactId webhookData)
                      (or_else (p_contact_id webhookData) (contact_dot_id webhookData)))
              in (case contactId of
                    None \<Rightarrow> (reject 400 ''No contact ID found in webhook payload'', w)
                  | Some cid \<Rightarrow>
                      (if cid = [] then (reject 400 ''No contact ID found in webhook payload'', w)
                       else if \<not> truthy (CALLTOOLS_API_KEY e) then (reject 500 missing_key_error, w)
                       else (case syncSingleContact cid (Some webhookData) w of
                               (result, w') \<Rightarrow> (sync_response [] result, w')))))))"

text \<open>
  \<open>GHLWebhook.handle\<close>, the revision that validates the payload against the strict schema
  (\<open>type\<close>, \<open>location_id\<close> and \<open>id\<close> required, \<open>contact.id\<close> required when there is a
  \<open>contact\<close>), checks the timestamp and syncs by id.
\<close>

definition schema_valid :: "webhook_data \<Rightarrow> bool" where
  "schema_valid d = (p_type d \<noteq> None \<and> p_location_id d \<noteq> None \<and> p_id d \<noteq> None \<and>
                     p_contact d \<noteq> Some None)"

definition relevantTypes :: "string list" where
  "relevantTypes = [''ContactUpdate'', ''ContactCreate'', ''ContactTagUpdate'']"

definition timestamp_rejected :: "env \<Rightarrow> webhook_data \<Rightarrow> world \<Rightarrow> bool" where
  "timestamp_rejected e d w =
     (case p_timestamp d of
        None \<Rightarrow> False
      | Some ts \<Rightarrow> ts \<noteq> 0 \<and> truthy (GHL_WEBHOOK_SECRET e) \<and> \<not> verifyTimestamp (clock w) ts)"

definition GHLWebhook_handle_strict ::
  "runtime \<Rightarrow> env \<Rightarrow> http_request \<Rightarrow> world \<Rightarrow> response \<times> world" where
  "GHLWebhook_handle_strict rt e req w =
     (if signature_rejected rt e req then (reject 401 ''Invalid webhook signature'', w)
      else
        (case JSON_parse rt (rawBody req) of
           SyntaxError \<Rightarrow> (reject 400 ''Invalid JSON payload'', w)
         | JsonNull \<Rightarrow> (reject 400 ''Invalid webhook payload format'', w)
         | JsonPrimitive \<Rightarrow> (reject 400 ''Invalid webhook payload format'', w)
         | JsonObject webhook \<Rightarrow>
             (if \<not> schema_valid webhook then (reject 400 ''Invalid webhook payload format'', w)
              else if timestamp_rejected e webhook w
                then (reject 401 ''Webhook timestamp is invalid or too old'', w)
              else
                (case (p_type webhook, p_id webhook) of
                   (Some ty, Some cid) \<Rightarrow>
                     (if ty \<notin> set relevantTypes then
                        (\<lparr>status = 200, r_success = True,
                          r_message = Some (''Webhook type '' @ ty @ '' ignored''),
                          r_error = None, r_data = None\<rparr>, w)
                      else if \<not> truthy (CALLTOOLS_API_KEY e) then (reject 500 missing_key_error, w)
                      else (case syncSingleContact cid None w of
                              (result, w') \<Rightarrow> (sync_response [] result, w')))
                 | _ \<Rightarrow> (reject 400 ''Invalid webhook payload format'', w)))))"

text \<open>\<open>GHLWorkflow.handle\<close>: no signature, the contact is synced by id.\<close>

definition GHLWorkflow_handle ::
  "runtime \<Rightarrow> env \<Rightarrow> http_request \<Rightarrow> world \<Rightarrow> response \<times> world" where
  "GHLWorkflow_handle rt e req w =
     (case JSON_parse rt (rawBody req) of
        SyntaxError \<Rightarrow> (reject 400 ''Invalid JSON payload'', w)
      | JsonNull \<Rightarrow> (reject 500 (null_property_error ''contact_id''), w)
      | JsonPrimitive \<Rightarrow> (reject 400 ''No contact ID found in workflow data'', w)
      | JsonObject workflowData \<Rightarrow>
          (let contactId =
                 or_else (p_contact_id workflowData) (or_else (p_contactId workflowData)
                   (or_else (p_id workflowData) (contact_dot_id workflowData)))
           in (case contactId of
                 None \<Rightarrow> (reject 400 ''No contact ID found in workflow data'', w)
               | Some cid \<Rightarrow>
                   (if cid = [] then (reject 400 ''No contact ID found in workflow data'', w)
                    else if \<not> truthy (GHL_API_KEY e)
                      then (reject_error 500 ''GoHighLevel API key not configured'', w)
                    else if \<not> truthy (CALLTOOLS_API_KEY e)
                      then (reject_error 500 ''CallTools API key not configured'', w)
                    else (case syncSingleContact cid None w of
                            (result, w') \<Rightarrow> (sync_response '' in CallTools'' result, w'))))))"

subsection \<open>Concrete inputs\<close>

definition world0 :: world where
  \<comment> \<open>empty ledger, empty CRM, empty dialer platform handing out ids 7, 77, 777, ...\<close>
  "world0 = \<lparr>ledger = Map.empty, ghl_contacts = [], ghl_fault = None, ct_contacts = [],
     ct_buckets = [], ct_tags = [], ct_fresh = (\<lambda>n. replicate (Suc n) CHR ''7''), ct_count = 0,
     ct_faults = [], ct_log = [], clock = 1700000000000\<rparr>"

definition no_payload :: webhook_data where
  "no_payload = \<lparr>p_id = None, p_contactId = None, p_contact_id = None, p_contact = None,
     p_type = None, p_location_id = None, p_timestamp = None, p_first_name = None,
     p_last_name = None, p_full_name = None, p_email = None, p_phone = None,
     p_tags = TagsAbsent\<rparr>"

definition payload :: "string \<Rightarrow> string \<Rightarrow> string \<Rightarrow> webhook_data" where
  \<comment> \<open>\<open>{contact_id, tags, phone}\<close>\<close>
  "payload cid tags ph =
     no_payload\<lparr>p_contact_id := Some cid, p_tags := TagsString tags, p_phone := Some ph\<rparr>"

definition customer_row :: "string \<Rightarrow> SyncedContact" where
  \<comment> \<open>the row \<open>markAsCustomer\<close> leaves for a contact not seen before\<close>
  "customer_row gid =
     \<lparr>ghl_contact_id = gid, calltools_contact_id = None, first_name = None, last_name = None,
      phone = None, email = None, sync_status = Excluded, last_sync_at = None,
      error_message = None, is_customer = 1\<rparr>"

definition once :: world where
  \<comment> \<open>the world after one delivery of a cold lead with a phone number\<close>
  "once = snd (syncSingleContact ''c1'' (Some (payload ''c1'' ''cold lead'' ''+15551234567'')) world0)"

definition twice :: world where
  \<comment> \<open>the world after a second, identical delivery\<close>
  "twice = snd (syncSingleContact ''c1'' (Some (payload ''c1'' ''cold lead'' ''+15551234567'')) once)"

definition customer_contact :: GHLContact where
  "customer_contact = \<lparr>g_id = Some ''c1'', g_name = None, g_firstName = None, g_lastName = None,
     g_email = None, g_phone = Some ''+15551234567'', g_tags = Some [''customer'']\<rparr>"

definition cold_contact :: "string \<Rightarrow> string option \<Rightarrow> GHLContact" where
  "cold_contact gid ph = \<lparr>g_id = Some gid, g_name = None, g_firstName = None, g_lastName = None,
     g_email = None, g_phone = ph, g_tags = Some [''cold lead'']\<rparr>"

definition result0 :: SyncResult where
  "result0 = \<lparr>total_processed = 1, synced = 0, updated = 0, excluded_customers = 0, failed = 0,
     bucket_name = ''Cold Leads'', bucket_id = Some coldLeadsBucket, errors = []\<rparr>"

definition crm_world :: world where
  \<comment> \<open>a CRM with a cold lead with a phone number, one without, and a customer\<close>
  "crm_world = world0\<lparr>ghl_contacts :=
     [cold_contact ''c1'' (Some ''+15551234567''), cold_contact ''c2'' None, customer_contact]\<rparr>"

definition quoted :: "string \<Rightarrow> string" where
  "quoted s = CHR 0x22 # s @ [CHR 0x22]"

definition cold_lead_body :: string where
  \<comment> \<open>the JSON text of \<open>{contact_id: c1, tags: cold lead, phone: +15551234567}\<close>\<close>
  "cold_lead_body = ''{'' @ quoted ''contact_id'' @ '':'' @ quoted ''c1'' @ '','' @
     quoted ''tags'' @ '':'' @ quoted ''cold lead'' @ '','' @
     quoted ''phone'' @ '':'' @ quoted ''+15551234567'' @ ''}''"

definition no_id_body :: string where
  \<comment> \<open>the JSON text of \<open>{tags: cold lead}\<close>\<close>
  "no_id_body = ''{'' @ quoted ''tags'' @ '':'' @ quoted ''cold lead'' @ ''}''"

definition id_alias_body :: string where
  \<comment> \<open>the JSON text of \<open>{id: c1, tags: cold lead}\<close>\<close>
  "id_alias_body = ''{'' @ quoted ''id'' @ '':'' @ quoted ''c1'' @ '','' @
     quoted ''tags'' @ '':'' @ quoted ''cold lead'' @ ''}''"


definition rt0 :: runtime where
  \<comment> \<open>a platform whose \<open>JSON.parse\<close> is given on the bodies used below, and whose digest
      of every payload is \<open>5f2a\<close>\<close>
  "rt0 = \<lparr>HMAC_SHA256_hex = (\<lambda>key msg. ''5f2a''),
          JSON_parse = (\<lambda>body.
            if body = cold_lead_body then JsonObject (payload ''c1'' ''cold lead'' ''+15551234567'')
            else if body = no_id_body then JsonObject (no_payload\<lparr>p_tags := TagsString ''cold lead''\<rparr>)
            else if body = id_alias_body
              then JsonObject (no_payload\<lparr>p_id := Some ''c1'', p_tags := TagsString ''cold lead''\<rparr>)
            else if body = ''null'' then JsonNull
            else if body = ''42'' then JsonPrimitive
            else SyntaxError)\<rparr>"

definition env_secret :: env where
  "env_secret = \<lparr>GHL_WEBHOOK_SECRET = Some ''s3cret'', GHL_API_KEY = Some ''ghl-key'',
                  CALLTOOLS_API_KEY = Some ''ct-key''\<rparr>"

definition env_open :: env where
  "env_open = \<lparr>GHL_WEBHOOK_SECRET = None, GHL_API_KEY = Some ''ghl-key'',
                CALLTOOLS_API_KEY = Some ''ct-key''\<rparr>"



subsection \<open>The ledger invariant\<close>

definition row_ok :: "SyncedContact \<Rightarrow> bool" where
  "row_ok row = (sync_status row = Synced \<longrightarrow> last_sync_at row \<noteq> None \<and> error_message row = None)"

definition synced_rows_ok :: "world \<Rightarrow> bool" where
  "synced_rows_ok w = (\<forall>gid row. ledger w gid = Some row \<longrightarrow> row_ok row)"

text \<open>
  The worlds reachable from an empty ledger: by the operations of the sync service, and
  by the environment, which may change everything but the ledger.
\<close>

inductive reachable :: "world \<Rightarrow> bool" where
  empty_ledger: "ledger w = Map.empty \<Longrightarrow> reachable w"
| environment: "reachable w \<Longrightarrow> ledger w' = ledger w \<Longrightarrow> reachable w'"
| single: "reachable w \<Longrightarrow> reachable (snd (syncSingleContact ghlContactId webhookContactData w))"
| batch: "reachable w \<Longrightarrow> reachable (snd (syncColdContacts w))"
| mark: "reachable w \<Longrightarrow> reachable (markAsCustomer ghlContactId w)"

subsection \<open>Abbreviations used in the statements\<close>

text \<open>The row written when a contact has been created, and the sum of the four counters.\<close>

definition created_row :: "string \<Rightarrow> string \<Rightarrow> CallToolsContact \<Rightarrow> int \<Rightarrow> SyncedContact" where
  "created_row gid createdId c now =
     \<lparr>ghl_contact_id = gid, calltools_contact_id = Some createdId,
      first_name = Some (ct_first_name c), last_name = or_null (Some (ct_last_name c)),
      phone = Some (ct_phone_number c), email = or_null (Some (ct_email c)),
      sync_status = Synced, last_sync_at = Some now, error_message = None, is_customer = 0\<rparr>"


section \<open>Auxiliary facts\<close>

subsection \<open>The gateway leaves the ledger alone\<close>

lemma ledger_request [simp]: "ledger (snd (request r w)) = ledger w"
  by (simp add: request_def split: list.splits)

lemma ledger_createContact [simp]: "ledger (snd (createContact c w)) = ledger w"
proof -
  obtain f w1 where r: "request (CreateContact c) w = (f, w1)" by (cases "request (CreateContact c) w")
  then have "ledger w1 = ledger w" using ledger_request[of "CreateContact c" w] by simp
  with r show ?thesis by (simp add: createContact_def Let_def split: option.splits)
qed

lemma ledger_updateContact [simp]: "ledger (snd (updateContact i c w)) = ledger w"
proof -
  obtain f w1 where r: "request (UpdateContact i c) w = (f, w1)" by (cases "request (UpdateContact i c) w")
  then have "ledger w1 = ledger w" using ledger_request[of "UpdateContact i c" w] by simp
  with r show ?thesis by (simp add: updateContact_def split: option.splits)
qed

lemma ledger_addContactToBucket [simp]: "ledger (snd (addContactToBucket i b w)) = ledger w"
proof -
  obtain f w1 where r: "request (AddToBucket i b) w = (f, w1)" by (cases "request (AddToBucket i b) w")
  then have "ledger w1 = ledger w" using ledger_request[of "AddToBucket i b" w] by simp
  with r show ?thesis by (simp add: addContactToBucket_def split: option.splits)
qed

lemma ledger_addToTagMembers [simp]: "ledger (addToTagMembers i t w) = ledger w"
proof -
  obtain f w1 where r: "request (AddToTag i t) w = (f, w1)" by (cases "request (AddToTag i t) w")
  then have "ledger w1 = ledger w" using ledger_request[of "AddToTag i t" w] by simp
  with r show ?thesis by (simp add: addToTagMembers_def split: option.splits)
qed

lemma ledger_addTagToContact [simp]: "ledger (addTagToContact i t w) = ledger w"
proof -
  obtain f w1 where r: "request (SearchTag t) w = (f, w1)" by (cases "request (SearchTag t) w")
  then have l1: "ledger w1 = ledger w" using ledger_request[of "SearchTag t" w] by simp
  obtain f2 w2 where r2: "request (CreateTag t) w1 = (f2, w2)" by (cases "request (CreateTag t) w1")
  then have l2: "ledger w2 = ledger w" using ledger_request[of "CreateTag t" w1] l1 by simp
  from r r2 l1 l2 show ?thesis by (simp add: addTagToContact_def split: option.splits)
qed

lemma lookup_without_phone [simp]: "getContactByExternalId gid None w = (None, w)"
  by (simp add: getContactByExternalId_def)


lemma synced_rows_ok_ledger: "ledger w' = ledger w \<Longrightarrow> synced_rows_ok w' = synced_rows_ok w"
  by (simp add: synced_rows_ok_def)

lemma synced_rows_ok_upd:
  "synced_rows_ok w \<Longrightarrow> row_ok row \<Longrightarrow> ledger w' = (ledger w)(gid \<mapsto> row) \<Longrightarrow> synced_rows_ok w'"
  by (auto simp: synced_rows_ok_def)

lemma createOrUpdateSyncRecord_ok:
  assumes "synced_rows_ok w" and "sync_status d = Synced \<longrightarrow> last_sync_at d \<noteq> None \<and> error_message d = None"
  shows "synced_rows_ok (createOrUpdateSyncRecord d w)"
proof (cases "ledger w (ghl_contact_id d)")
  case None
  show ?thesis
    by (rule synced_rows_ok_upd[OF assms(1), where gid = "ghl_contact_id d"])
       (use None assms(2) in \<open>auto simp: createOrUpdateSyncRecord_def getSyncedContact_def row_ok_def or_null_def truthy_def\<close>)
next
  case (Some existing)
  show ?thesis
    by (rule synced_rows_ok_upd[OF assms(1), where gid = "ghl_contact_id d"])
       (use Some assms(2) in \<open>auto simp: createOrUpdateSyncRecord_def getSyncedContact_def row_ok_def\<close>)
qed

lemma updateSyncRecord_failed_ok:
  assumes "synced_rows_ok w"
  shows "synced_rows_ok (updateSyncRecord gid (failed_updates msg) w)"
proof (cases "ledger w gid")
  case None
  have "synced_rows_ok (createOrUpdateSyncRecord
            \<lparr>ghl_contact_id = gid, calltools_contact_id = None, first_name = None, last_name = None,
             phone = None, email = None, sync_status = Failed, last_sync_at = None,
             error_message = js_or_null (Value msg), is_customer = 0\<rparr> w)"
    by (rule createOrUpdateSyncRecord_ok[OF assms]) simp
  with None show ?thesis
    by (simp add: updateSyncRecord_def getSyncedContact_def failed_updates_def no_updates_def)
next
  case (Some existing)
  show ?thesis
    by (rule synced_rows_ok_upd[OF assms, where gid = gid])
       (use Some in \<open>auto simp: updateSyncRecord_def getSyncedContact_def row_ok_def failed_updates_def no_updates_def\<close>)
qed

lemma updateSyncRecord_synced_ok:
  assumes "synced_rows_ok w"
  shows "synced_rows_ok (updateSyncRecord gid (synced_updates i c now) w)"
proof (cases "ledger w gid")
  case None
  have "synced_rows_ok (createOrUpdateSyncRecord
            \<lparr>ghl_contact_id = gid, calltools_contact_id = js_or_null (Value i),
             first_name = js_or_null (Value (ct_first_name c)),
             last_name = js_or_null (Value (ct_last_name c)),
             phone = js_or_null (Value (ct_phone_number c)),
             email = js_or_null (Value (ct_email c)), sync_status = Synced,
             last_sync_at = Some now, error_message = None, is_customer = 0\<rparr> w)"
    by (rule createOrUpdateSyncRecord_ok[OF assms]) simp
  with None show ?thesis
    by (simp add: updateSyncRecord_def getSyncedContact_def synced_updates_def)
next
  case (Some existing)
  show ?thesis
    by (rule synced_rows_ok_upd[OF assms, where gid = gid])
       (use Some in \<open>auto simp: updateSyncRecord_def getSyncedContact_def row_ok_def synced_updates_def\<close>)
qed

lemma markAsCustomer_ok:
  assumes "synced_rows_ok w"
  shows "synced_rows_ok (markAsCustomer gid w)"
proof -
  let ?w1 = "updateSyncRecord gid (no_updates\<lparr>u_sync_status := Some Excluded\<rparr>) w"
  have "\<exists>row. ledger ?w1 = (ledger w)(gid \<mapsto> row) \<and> sync_status row = Excluded"
    by (cases "ledger w gid")
       (auto simp: updateSyncRecord_def createOrUpdateSyncRecord_def getSyncedContact_def no_updates_def)
  then obtain row where l1: "ledger ?w1 = (ledger w)(gid \<mapsto> row)" and st: "sync_status row = Excluded"
    by blast
  have "ledger (markAsCustomer gid w) = (ledger w)(gid \<mapsto> row\<lparr>is_customer := 1\<rparr>)"
    using l1 by (simp add: markAsCustomer_def Let_def)
  moreover have "row_ok (row\<lparr>is_customer := 1\<rparr>)" using st by (simp add: row_ok_def)
  ultimately show ?thesis using assms synced_rows_ok_upd by blast
qed


lemma syncContact_try_cases:
  assumes "syncContact_try gid c res b w = (r, w')"
  shows "(\<exists>e. r = Inl e \<and> ledger w' = ledger w) \<or>
         (\<exists>createdId w3. r = Inr (res\<lparr>synced := synced res + 1\<rparr>) \<and> ledger w3 = ledger w \<and>
            w' = createOrUpdateSyncRecord (created_row gid createdId c (clock w3)) w3)"
proof -
  obtain r1 w1 where c1: "createContact c w = (r1, w1)" by (cases "createContact c w")
  have l1: "ledger w1 = ledger w" using ledger_createContact[of c w] c1 by simp
  show ?thesis
  proof (cases r1)
    case (Inl e)
    with assms c1 l1 show ?thesis by (auto simp: syncContact_try_def)
  next
    case (Inr createdId)
    obtain r2 w2 where c2: "(if b \<noteq> [] then addContactToBucket createdId b w1 else (Inr (), w1)) = (r2, w2)"
      by (cases "(if b \<noteq> [] then addContactToBucket createdId b w1 else (Inr (), w1))")
    have l2: "ledger w2 = ledger w"
    proof (cases "b = []")
      case True
      with c2 l1 show ?thesis by simp
    next
      case False
      with c2 have "w2 = snd (addContactToBucket createdId b w1)" by simp
      with l1 show ?thesis by simp
    qed
    show ?thesis
    proof (cases r2)
      case (Inl e)
      with assms c1 c2 l2 Inr show ?thesis by (auto simp: syncContact_try_def)
    next
      case (Inr u)
      let ?w3 = "addTagToContact createdId ''ACA Cold lead'' w2"
      have "ledger ?w3 = ledger w" using l2 by simp
      moreover have "r = Inr (res\<lparr>synced := synced res + 1\<rparr>)"
        and "w' = createOrUpdateSyncRecord (created_row gid createdId c (clock ?w3)) ?w3"
        using assms c1 c2 Inr \<open>r1 = Inr createdId\<close>
        by (auto simp: syncContact_try_def Let_def created_row_def)
      ultimately show ?thesis by blast
    qed
  qed
qed

lemma syncContact_try_ok:
  assumes "synced_rows_ok w" "syncContact_try gid c res b w = (r, w')"
  shows "synced_rows_ok w'"
  using syncContact_try_cases[OF assms(2)]
proof (elim disjE exE conjE)
  fix e assume "ledger w' = ledger w"
  then show ?thesis using assms(1) synced_rows_ok_ledger by blast
next
  fix createdId w3
  assume l: "ledger w3 = ledger w"
    and w': "w' = createOrUpdateSyncRecord (created_row gid createdId c (clock w3)) w3"
  have "synced_rows_ok w3" using l assms(1) synced_rows_ok_ledger by blast
  then show ?thesis unfolding w'
    by (rule createOrUpdateSyncRecord_ok) (simp add: created_row_def)
qed

lemma syncContact_ok:
  assumes "synced_rows_ok w"
  shows "synced_rows_ok (snd (syncContact g res b w))"
proof (cases "g_id g")
  case None
  then show ?thesis using assms by (simp add: syncContact_def)
next
  case (Some gid)
  show ?thesis
  proof (cases "case getSyncedContact w gid of None \<Rightarrow> False | Some r \<Rightarrow> is_customer r = 1")
    case True
    then show ?thesis using assms Some by (simp add: syncContact_def)
  next
    case notcust: False
    show ?thesis
    proof (cases "or_string (g_phone g) [] = []")
      case True
      then show ?thesis using assms Some notcust updateSyncRecord_failed_ok
        by (simp add: syncContact_def)
    next
      case False
      define c where "c = \<lparr>ct_first_name = or_string (or_else (g_firstName g) (g_name g)) ''Unknown'',
                           ct_last_name = or_string (g_lastName g) [],
                           ct_phone_number = or_string (g_phone g) [],
                           ct_email = or_string (g_email g) [],
                           ct_external_id = gid, ct_bucket_id = b\<rparr>"
      obtain r w' where t: "syncContact_try gid c res b w = (r, w')"
        by (cases "syncContact_try gid c res b w")
      have ok': "synced_rows_ok w'" using syncContact_try_ok[OF assms t] .
      have "snd (syncContact g res b w) = (case r of Inr res' \<Rightarrow> w' | Inl e \<Rightarrow> updateSyncRecord gid (failed_updates e) w')"
        using Some notcust False t
        by (simp add: syncContact_def Let_def c_def[symmetric] split: sum.splits)
      then show ?thesis using ok' updateSyncRecord_failed_ok by (cases r) simp_all
    qed
  qed
qed


lemma syncSingleContact_ok:
  assumes "synced_rows_ok w"
  shows "synced_rows_ok (snd (syncSingleContact gid d w))"
proof (cases "resolve_contact gid d w")
  case (Inl e)
  then show ?thesis using assms by (simp add: syncSingleContact_def)
next
  case (Inr g)
  let ?res = "\<lparr>total_processed = 1, synced = 0, updated = 0, excluded_customers = 0, failed = 0,
               bucket_name = ''Cold Leads'', bucket_id = Some coldLeadsBucket, errors = []\<rparr>"
  have "snd (syncSingleContact gid d w) = markAsCustomer gid w \<or>
        snd (syncSingleContact gid d w) = w \<or>
        snd (syncSingleContact gid d w) = snd (syncContact g ?res coldLeadsBucket w)"
    using Inr by (auto simp: syncSingleContact_def Let_def split: prod.splits option.splits)
  then show ?thesis using assms markAsCustomer_ok syncContact_ok by auto
qed

lemma sync_each_ok:
  "synced_rows_ok w \<Longrightarrow> synced_rows_ok (snd (sync_each gs res b w))"
proof (induction gs arbitrary: res w)
  case Nil
  then show ?case by simp
next
  case (Cons g gs)
  obtain err res' w' where s: "syncContact g res b w = ((err, res'), w')"
    by (metis surj_pair)
  have "synced_rows_ok w'" using syncContact_ok[OF Cons.prems, of g res b] s by simp
  then show ?case using Cons.IH s by (cases err) simp_all
qed

lemma syncColdContacts_ok:
  "synced_rows_ok w \<Longrightarrow> synced_rows_ok (snd (syncColdContacts w))"
  using sync_each_ok
  by (auto simp: syncColdContacts_def Let_def split: sum.splits prod.splits) (metis snd_conv)

lemma reachable_ok: "reachable w \<Longrightarrow> synced_rows_ok w"
proof (induction rule: reachable.induct)
  case (empty_ledger w)
  then show ?case by (simp add: synced_rows_ok_def)
next
  case (environment w w')
  then show ?case using synced_rows_ok_ledger by blast
qed (simp_all add: syncSingleContact_ok syncColdContacts_ok markAsCustomer_ok)



subsection \<open>Marking a contact not seen before\<close>

lemma markAsCustomer_new:
  assumes "ledger w gid = None"
  shows "markAsCustomer gid w = w\<lparr>ledger := (ledger w)(gid \<mapsto> customer_row gid)\<rparr>"
  using assms
  by (simp add: markAsCustomer_def updateSyncRecord_def createOrUpdateSyncRecord_def
      getSyncedContact_def no_updates_def customer_row_def or_null_def truthy_def Let_def)

lemma updateSyncRecord_failed_row:
  assumes "msg \<noteq> []"
  shows "\<exists>row. updateSyncRecord gid (failed_updates msg) w = w\<lparr>ledger := (ledger w)(gid \<mapsto> row)\<rparr> \<and>
           sync_status row = Failed \<and> error_message row = Some msg"
proof (cases "ledger w gid")
  case None
  let ?row = "\<lparr>ghl_contact_id = gid, calltools_contact_id = None, first_name = None,
               last_name = None, phone = None, email = None, sync_status = Failed,
               last_sync_at = None, error_message = Some msg, is_customer = 0\<rparr>"
  have "updateSyncRecord gid (failed_updates msg) w = w\<lparr>ledger := (ledger w)(gid \<mapsto> ?row)\<rparr>"
    using None assms
    by (simp add: updateSyncRecord_def createOrUpdateSyncRecord_def getSyncedContact_def
        failed_updates_def no_updates_def or_null_def truthy_def)
  then show ?thesis by (intro exI[where x = ?row]) simp
next
  case (Some existing)
  let ?row = "existing\<lparr>sync_status := Failed, error_message := Some msg\<rparr>"
  have "updateSyncRecord gid (failed_updates msg) w = w\<lparr>ledger := (ledger w)(gid \<mapsto> ?row)\<rparr>"
    using Some
    by (simp add: updateSyncRecord_def getSyncedContact_def failed_updates_def no_updates_def)
  then show ?thesis by (intro exI[where x = ?row]) simp
qed


lemma xor_eq_0_nat: "((a::nat) XOR b = 0) = (a = b)"
proof
  assume h: "a XOR b = 0"
  have "b = (a XOR a) XOR b" by simp
  also have "\<dots> = a XOR (a XOR b)" by (simp only: xor.assoc)
  also have "\<dots> = a" using h by simp
  finally show "a = b" by simp
qed simp

lemma fold_or_xor_zero:
  "(fold (\<lambda>(x, y) result. result OR ((of_char x :: nat) XOR of_char y)) ps acc = 0) =
     (acc = 0 \<and> (\<forall>(x, y) \<in> set ps. x = y))"
  by (induction ps arbitrary: acc) (auto simp: or_eq_0_iff xor_eq_0_nat)

lemma constantTimeCompare_iff: "constantTimeCompare a b = (a = b)"
  by (auto simp: constantTimeCompare_def fold_or_xor_zero list_eq_iff_zip_eq)



section \<open>Properties\<close>




text \<open>
  C2. The claim: a second delivery of the same contact finds the contact created by the
  first and updates it. \<open>syncContact\<close> calls the lookup without the phone number, and the
  lookup answers \<open>null\<close> without one, so the second delivery creates a second contact: the
  platform holds two contacts with the same number, no update request was ever sent, and
  the ledger's \<open>calltools_contact_id\<close> moves from the first contact to the second.
\<close>

theorem second_delivery_creates_duplicate:
  "map fst (ct_contacts twice) = [''7'', ''77''] \<and>
   map (ct_phone_number \<circ> snd) (ct_contacts twice) = [''+15551234567'', ''+15551234567''] \<and>
   length (filter (\<lambda>r. case r of CreateContact c \<Rightarrow> True | _ \<Rightarrow> False) (ct_log twice)) = 2 \<and>
   filter (\<lambda>r. case r of UpdateContact i c \<Rightarrow> True | _ \<Rightarrow> False) (ct_log twice) = [] \<and>
   map_option calltools_contact_id (ledger once ''c1'') = Some (Some ''7'') \<and>
   map_option calltools_contact_id (ledger twice ''c1'') = Some (Some ''77'')"
  by code_simp

text \<open>
  C3, as stated: a contact with a customer-family label and no ledger row leaves the
  ledger untouched. It does not: \<open>markAsCustomer\<close> goes through \<open>updateSyncRecord\<close>, which
  creates the missing row.
\<close>

theorem customer_without_row_counterexample:
  "ledger world0 ''c1'' = None \<and>
   isCustomer (map toLowerCase (split_comma ''customer'')) \<and>
   fst (syncSingleContact ''c1'' (Some (payload ''c1'' ''customer'' ''+15551234567'')) world0) =
     \<lparr>o_success = True, o_contact_id = ''c1'', o_action = AExcluded, o_bucket_id = None,
      o_error = None\<rparr> \<and>
   ledger (snd (syncSingleContact ''c1'' (Some (payload ''c1'' ''customer'' ''+15551234567'')) world0))
     ''c1'' = Some (customer_row ''c1'')"
  by code_simp

text \<open>
  C3, amended: for a contact with a customer-family label and no ledger row the service
  returns \<open>excluded\<close> with success, and the world changes in the ledger only, by one new
  row for the contact with status \<open>excluded\<close> and \<open>is_customer = 1\<close>. The dialer platform,
  its request log included, is as before: no request was sent to it.
\<close>

theorem customer_without_row_is_recorded:
  assumes "resolve_contact gid d w = Inr g" and "isCustomer (lower_tags g)" and "ledger w gid = None"
  shows "syncSingleContact gid d w =
           (\<lparr>o_success = True, o_contact_id = gid, o_action = AExcluded, o_bucket_id = None,
             o_error = None\<rparr>,
            w\<lparr>ledger := (ledger w)(gid \<mapsto> customer_row gid)\<rparr>)"
  using assms by (simp add: syncSingleContact_def markAsCustomer_new)

theorem customer_without_row_is_recorded_witness:
  "resolve_contact ''c1'' (Some (payload ''c1'' ''customer'' ''+15551234567'')) world0 =
     Inr customer_contact \<and>
   isCustomer (lower_tags customer_contact) \<and> ledger world0 ''c1'' = None \<and>
   syncSingleContact ''c1'' (Some (payload ''c1'' ''customer'' ''+15551234567'')) world0 =
     (\<lparr>o_success = True, o_contact_id = ''c1'', o_action = AExcluded, o_bucket_id = None,
       o_error = None\<rparr>,
      world0\<lparr>ledger := (ledger world0)(''c1'' \<mapsto> customer_row ''c1'')\<rparr>)"
proof -
  have h1: "resolve_contact ''c1'' (Some (payload ''c1'' ''customer'' ''+15551234567'')) world0 =
              Inr customer_contact"
    by code_simp
  have h2: "isCustomer (lower_tags customer_contact)" by code_simp
  have h3: "ledger world0 ''c1'' = None" by (simp add: world0_def)
  show ?thesis using customer_without_row_is_recorded[OF h1 h2 h3] h1 h2 h3 by simp
qed

text \<open>
  C4. The claim: with a webhook secret configured, a request whose signature header is
  bad or missing is rejected with 401 and has no effect. The route is the one that
  requires a signature, and \<open>verifySignature\<close> answers false on a missing one, but the
  handler never asks it: without the header, or with an empty one, it warns and
  proceeds. The request is answered 200 and the contact is synced.
\<close>

theorem request_without_signature_is_synced:
  "GHL_WEBHOOK_SECRET env_secret = Some ''s3cret'' \<and>
   fst (GHLWebhook_handle rt0 env_secret \<lparr>rawBody = cold_lead_body, x_ghl_signature = None\<rparr> world0) =
     \<lparr>status = 200, r_success = True, r_message = Some ''Contact synced successfully'',
      r_error = None, r_data = Some (''c1'', ASynced, Some ''11237'')\<rparr> \<and>
   map fst (ct_contacts (snd (GHLWebhook_handle rt0 env_secret
       \<lparr>rawBody = cold_lead_body, x_ghl_signature = None\<rparr> world0))) = [''7''] \<and>
   map_option sync_status (ledger (snd (GHLWebhook_handle rt0 env_secret
       \<lparr>rawBody = cold_lead_body, x_ghl_signature = None\<rparr> world0)) ''c1'') = Some Synced \<and>
   fst (GHLWebhook_handle rt0 env_secret \<lparr>rawBody = cold_lead_body, x_ghl_signature = Some []\<rparr> world0) =
     \<lparr>status = 200, r_success = True, r_message = Some ''Contact synced successfully'',
      r_error = None, r_data = Some (''c1'', ASynced, Some ''11237'')\<rparr> \<and>
   map_option sync_status (ledger (snd (GHLWebhook_handle rt0 env_secret
       \<lparr>rawBody = cold_lead_body, x_ghl_signature = Some []\<rparr> world0)) ''c1'') = Some Synced \<and>
   verifySignature rt0 ''s3cret'' cold_lead_body None = False \<and>
   verifySignature rt0 ''s3cret'' cold_lead_body (Some []) = False"
  by code_simp

text \<open>
  The half of C4 the handler keeps: with a webhook secret configured, a request whose
  signature header is present, not empty, and not the HMAC-SHA256 of the raw body under
  the secret is answered 401 with \<open>success = false\<close>, by both revisions of the handler, and
  the world is as before.
\<close>

theorem bad_signature_is_rejected:
  assumes "GHL_WEBHOOK_SECRET e = Some secret" and "secret \<noteq> []"
    and "x_ghl_signature req = Some sg" and "sg \<noteq> []"
    and "sg \<noteq> HMAC_SHA256_hex rt secret (rawBody req)"
  shows "GHLWebhook_handle rt e req w = (reject 401 ''Invalid webhook signature'', w) \<and>
         GHLWebhook_handle_strict rt e req w = (reject 401 ''Invalid webhook signature'', w)"
proof -
  have "signature_rejected rt e req"
    using assms
    by (simp add: signature_rejected_def or_null_def truthy_def verifySignature_def
        constantTimeCompare_iff)
  then show ?thesis by (simp add: GHLWebhook_handle_def GHLWebhook_handle_strict_def)
qed

theorem bad_signature_is_rejected_witness:
  "GHL_WEBHOOK_SECRET env_secret = Some ''s3cret'' \<and>
   x_ghl_signature \<lparr>rawBody = cold_lead_body, x_ghl_signature = Some ''0000''\<rparr> = Some ''0000'' \<and>
   ''0000'' \<noteq> HMAC_SHA256_hex rt0 ''s3cret'' cold_lead_body \<and>
   GHLWebhook_handle rt0 env_secret \<lparr>rawBody = cold_lead_body, x_ghl_signature = Some ''0000''\<rparr> world0 =
     (reject 401 ''Invalid webhook signature'', world0) \<and>
   GHLWebhook_handle_strict rt0 env_secret \<lparr>rawBody = cold_lead_body, x_ghl_signature = Some ''0000''\<rparr> world0 =
     (reject 401 ''Invalid webhook signature'', world0)"
proof -
  have h1: "GHL_WEBHOOK_SECRET env_secret = Some ''s3cret''" by (simp add: env_secret_def)
  have h2: "''s3cret'' \<noteq> []" by simp
  have h3: "x_ghl_signature \<lparr>rawBody = cold_lead_body, x_ghl_signature = Some ''0000''\<rparr> = Some ''0000''"
    by simp
  have h4: "''0000'' \<noteq> []" by simp
  have h5: "''0000'' \<noteq> HMAC_SHA256_hex rt0 ''s3cret''
              (rawBody \<lparr>rawBody = cold_lead_body, x_ghl_signature = Some ''0000''\<rparr>)"
    by (simp add: rt0_def)
  show ?thesis using bad_signature_is_rejected[OF h1 h2 h3 h4 h5, of world0] h1 h3 h5 by simp
qed

text \<open>
  C5. The claim: a cold lead whose ledger row has \<open>is_customer = 1\<close> is reported
  \<open>excluded\<close>. \<open>syncContact\<close> does short-circuit and counts the contact under
  \<open>excluded_customers\<close>, but \<open>syncSingleContact\<close> derives the action from \<open>synced\<close> and
  \<open>updated\<close> alone: the action is \<open>failed\<close>, with success and with no request sent.
\<close>

theorem flagged_cold_lead_reports_failed:
  "fst (syncSingleContact ''c1'' (Some (payload ''c1'' ''cold lead'' ''+15551234567''))
         (world0\<lparr>ledger := [''c1'' \<mapsto> customer_row ''c1'']\<rparr>)) =
     \<lparr>o_success = True, o_contact_id = ''c1'', o_action = AFailed,
      o_bucket_id = Some ''11237'', o_error = None\<rparr> \<and>
   ct_log (snd (syncSingleContact ''c1'' (Some (payload ''c1'' ''cold lead'' ''+15551234567''))
         (world0\<lparr>ledger := [''c1'' \<mapsto> customer_row ''c1'']\<rparr>))) = []"
  by code_simp

text \<open>
  C6. The claim: a cold lead without a phone number ends as \<open>failed\<close>, with a ledger row
  of status \<open>failed\<close> and error \<open>No phone number\<close>, and no request to the dialer platform.
  The webhook handler accepts the contact id under \<open>id\<close>, \<open>contactId\<close>, \<open>contact_id\<close> or
  \<open>contact.id\<close>, but \<open>syncSingleContact\<close> takes the id of the contact it assembles from
  \<open>contact_id\<close> alone. A cold lead without phone named by \<open>id\<close> reaches \<open>syncContact\<close>
  with an undefined id, the first ledger query throws, and the phone test is never
  reached: the outcome is \<open>failed\<close> with the database's error and no ledger row is written.
\<close>

theorem cold_lead_named_by_id_leaves_no_row:
  "JSON_parse rt0 id_alias_body =
     JsonObject (no_payload\<lparr>p_id := Some ''c1'', p_tags := TagsString ''cold lead''\<rparr>) \<and>
   isCold (map toLowerCase (split_comma ''cold lead'')) \<and>
   fst (syncSingleContact ''c1''
          (Some (no_payload\<lparr>p_id := Some ''c1'', p_tags := TagsString ''cold lead''\<rparr>)) world0) =
     \<lparr>o_success = False, o_contact_id = ''c1'', o_action = AFailed, o_bucket_id = None,
      o_error = Some d1_type_error\<rparr> \<and>
   ledger (snd (syncSingleContact ''c1''
          (Some (no_payload\<lparr>p_id := Some ''c1'', p_tags := TagsString ''cold lead''\<rparr>)) world0)) ''c1''
     = None \<and>
   fst (GHLWebhook_handle rt0 env_open \<lparr>rawBody = id_alias_body, x_ghl_signature = None\<rparr> world0) =
     \<lparr>status = 200, r_success = False,
      r_message = Some (''Failed to sync contact: '' @ d1_type_error),
      r_error = None, r_data = Some (''c1'', AFailed, None)\<rparr> \<and>
   ledger (snd (GHLWebhook_handle rt0 env_open
       \<lparr>rawBody = id_alias_body, x_ghl_signature = None\<rparr> world0)) ''c1'' = None \<and>
   ct_log (snd (GHLWebhook_handle rt0 env_open
       \<lparr>rawBody = id_alias_body, x_ghl_signature = None\<rparr> world0)) = []"
  by code_simp

text \<open>
  The case of C6 the service handles: a contact that carries its id, has a cold label, no
  customer-family label and no ledger row flagged \<open>is_customer = 1\<close>, and whose phone
  number is empty or absent. The outcome is \<open>failed\<close> (the \<open>failed\<close> counter of
  \<open>syncContact\<close>, the action and the cleared success flag of \<open>syncSingleContact\<close>), the
  contact's ledger row has status \<open>failed\<close> and error message \<open>No phone number\<close>, and the
  world changes in that row only: the dialer platform and its request log are as before.
\<close>

theorem missing_phone_fails:
  assumes "g_id g = Some cid" and "\<not> truthy (g_phone g)"
    and "\<forall>row. ledger w cid = Some row \<longrightarrow> is_customer row \<noteq> 1"
  shows "\<exists>row. sync_status row = Failed \<and> error_message row = Some ''No phone number'' \<and>
           syncContact g res b w =
             ((None, res\<lparr>failed := failed res + 1\<rparr>), w\<lparr>ledger := (ledger w)(cid \<mapsto> row)\<rparr>) \<and>
           (resolve_contact gid d w = Inr g \<and> \<not> isCustomer (lower_tags g) \<and> isCold (lower_tags g) \<longrightarrow>
              syncSingleContact gid d w =
                (\<lparr>o_success = False, o_contact_id = gid, o_action = AFailed,
                  o_bucket_id = Some coldLeadsBucket, o_error = None\<rparr>,
                 w\<lparr>ledger := (ledger w)(cid \<mapsto> row)\<rparr>))"
proof -
  obtain row where u: "updateSyncRecord cid (failed_updates ''No phone number'') w =
                         w\<lparr>ledger := (ledger w)(cid \<mapsto> row)\<rparr>"
    and st: "sync_status row = Failed" and em: "error_message row = Some ''No phone number''"
    using updateSyncRecord_failed_row[of "''No phone number''" cid w] by auto
  have ph: "or_string (g_phone g) [] = []"
    using assms(2) by (auto simp: or_string_def truthy_def split: option.splits)
  have nc: "\<not> (case getSyncedContact w cid of None \<Rightarrow> False | Some r \<Rightarrow> is_customer r = 1)"
    using assms(3) by (auto simp: getSyncedContact_def split: option.splits)
  have sc: "syncContact g res' b' w =
              ((None, res'\<lparr>failed := failed res' + 1\<rparr>), w\<lparr>ledger := (ledger w)(cid \<mapsto> row)\<rparr>)"
    for res' b'
    using assms(1) ph nc u by (simp add: syncContact_def)
  have "syncSingleContact gid d w =
          (\<lparr>o_success = False, o_contact_id = gid, o_action = AFailed,
            o_bucket_id = Some coldLeadsBucket, o_error = None\<rparr>,
           w\<lparr>ledger := (ledger w)(cid \<mapsto> row)\<rparr>)"
    if "resolve_contact gid d w = Inr g" "\<not> isCustomer (lower_tags g)" "isCold (lower_tags g)"
    using that sc by (simp add: syncSingleContact_def)
  with st em sc show ?thesis by blast
qed

theorem missing_phone_fails_witness:
  "g_id (cold_contact ''c2'' None) = Some ''c2'' \<and> \<not> truthy (g_phone (cold_contact ''c2'' None)) \<and>
   ledger crm_world ''c2'' = None \<and>
   resolve_contact ''c2'' None crm_world = Inr (cold_contact ''c2'' None) \<and>
   \<not> isCustomer (lower_tags (cold_contact ''c2'' None)) \<and> isCold (lower_tags (cold_contact ''c2'' None)) \<and>
   (\<exists>row. sync_status row = Failed \<and> error_message row = Some ''No phone number'' \<and>
      syncContact (cold_contact ''c2'' None) result0 coldLeadsBucket crm_world =
        ((None, result0\<lparr>failed := failed result0 + 1\<rparr>),
         crm_world\<lparr>ledger := (ledger crm_world)(''c2'' \<mapsto> row)\<rparr>) \<and>
      syncSingleContact ''c2'' None crm_world =
        (\<lparr>o_success = False, o_contact_id = ''c2'', o_action = AFailed,
          o_bucket_id = Some coldLeadsBucket, o_error = None\<rparr>,
         crm_world\<lparr>ledger := (ledger crm_world)(''c2'' \<mapsto> row)\<rparr>))"
proof -
  have h1: "g_id (cold_contact ''c2'' None) = Some ''c2''" by (simp add: cold_contact_def)
  have h2: "\<not> truthy (g_phone (cold_contact ''c2'' None))" by (simp add: cold_contact_def truthy_def)
  have h0: "ledger crm_world ''c2'' = None" by (simp add: crm_world_def world0_def)
  have h3: "\<forall>row. ledger crm_world ''c2'' = Some row \<longrightarrow> is_customer row \<noteq> 1"
    using h0 by simp
  have h4: "resolve_contact ''c2'' None crm_world = Inr (cold_contact ''c2'' None)" by code_simp
  have h5: "\<not> isCustomer (lower_tags (cold_contact ''c2'' None))" by code_simp
  have h6: "isCold (lower_tags (cold_contact ''c2'' None))" by code_simp
  show ?thesis
    using missing_phone_fails[OF h1 h2 h3, of result0 coldLeadsBucket "''c2''" None] h1 h2 h0 h4 h5 h6
    by blast
qed

text \<open>
  C7, as stated: every webhook or workflow request whose body is not valid JSON, or
  carries no contact id, is answered 400. On the webhook path the signature gate comes
  first, so a malformed body under a bad signature is answered 401; and the body \<open>null\<close>
  is valid JSON without a contact id, yet reading its properties throws and the answer
  is 500.
\<close>

theorem input_errors_counterexample:
  "JSON_parse rt0 ''{not json'' = SyntaxError \<and>
   fst (GHLWebhook_handle rt0 env_secret \<lparr>rawBody = ''{not json'', x_ghl_signature = Some ''0000''\<rparr> world0) =
     reject 401 ''Invalid webhook signature'' \<and>
   JSON_parse rt0 ''null'' = JsonNull \<and>
   fst (GHLWorkflow_handle rt0 env_open \<lparr>rawBody = ''null'', x_ghl_signature = None\<rparr> world0) =
     reject 500 (null_property_error ''contact_id'') \<and>
   status (reject 401 ''Invalid webhook signature'') \<noteq> 400 \<and> status (reject 500 (null_property_error ''contact_id'')) \<noteq> 400"
  by code_simp

text \<open>
  C7, amended: a workflow request, or a webhook request that passes the signature gate,
  whose body is not valid JSON, or is a JSON value other than \<open>null\<close> in which none of
  \<open>id\<close>, \<open>contactId\<close>, \<open>contact_id\<close>, \<open>contact.id\<close> is present and non-empty, is answered 400
  with \<open>success = false\<close> and a message, and the world is as before: no ledger mutation
  and no request to the dialer platform.
\<close>

theorem input_errors_are_rejected:
  assumes "JSON_parse rt (rawBody req) = SyntaxError \<or> JSON_parse rt (rawBody req) = JsonPrimitive \<or>
           (\<exists>d. JSON_parse rt (rawBody req) = JsonObject d \<and> \<not> truthy (p_id d) \<and>
                \<not> truthy (p_contactId d) \<and> \<not> truthy (p_contact_id d) \<and> \<not> truthy (contact_dot_id d))"
  shows "(\<exists>msg. GHLWorkflow_handle rt e req w = (reject 400 msg, w)) \<and>
         (\<not> signature_rejected rt e req \<longrightarrow>
            (\<exists>msg. GHLWebhook_handle rt e req w = (reject 400 msg, w)))"
  using assms
  by (auto simp: GHLWorkflow_handle_def GHLWebhook_handle_def or_else_def Let_def truthy_def
      split: option.splits)

theorem input_errors_are_rejected_witness:
  "JSON_parse rt0 (rawBody \<lparr>rawBody = ''{not json'', x_ghl_signature = None\<rparr>) = SyntaxError \<and>
   \<not> signature_rejected rt0 env_secret \<lparr>rawBody = ''{not json'', x_ghl_signature = None\<rparr> \<and>
   (\<exists>msg. GHLWorkflow_handle rt0 env_secret \<lparr>rawBody = ''{not json'', x_ghl_signature = None\<rparr> world0 =
      (reject 400 msg, world0)) \<and>
   (\<exists>msg. GHLWebhook_handle rt0 env_secret \<lparr>rawBody = ''{not json'', x_ghl_signature = None\<rparr> world0 =
      (reject 400 msg, world0)) \<and>
   (\<exists>d. JSON_parse rt0 (rawBody \<lparr>rawBody = no_id_body, x_ghl_signature = None\<rparr>) = JsonObject d \<and>
      \<not> truthy (p_id d) \<and> \<not> truthy (p_contactId d) \<and> \<not> truthy (p_contact_id d) \<and>
      \<not> truthy (contact_dot_id d)) \<and>
   (\<exists>msg. GHLWorkflow_handle rt0 env_secret \<lparr>rawBody = no_id_body, x_ghl_signature = None\<rparr> world0 =
      (reject 400 msg, world0))"
proof -
  let ?bad = "\<lparr>rawBody = ''{not json'', x_ghl_signature = None\<rparr>"
  let ?noid = "\<lparr>rawBody = no_id_body, x_ghl_signature = None\<rparr>"
  have h1: "JSON_parse rt0 (rawBody ?bad) = SyntaxError" by code_simp
  have h2: "\<not> signature_rejected rt0 env_secret ?bad"
    by (simp add: signature_rejected_def env_secret_def or_null_def truthy_def)
  have p: "JSON_parse rt0 (rawBody ?noid) = JsonObject (no_payload\<lparr>p_tags := TagsString ''cold lead''\<rparr>)"
    by code_simp
  have h3: "\<exists>d. JSON_parse rt0 (rawBody ?noid) = JsonObject d \<and>
      \<not> truthy (p_id d) \<and> \<not> truthy (p_contactId d) \<and> \<not> truthy (p_contact_id d) \<and>
      \<not> truthy (contact_dot_id d)"
    using p by (simp add: no_payload_def truthy_def contact_dot_id_def)
  note t1 = input_errors_are_rejected[of rt0 ?bad env_secret world0, OF disjI1, OF h1]
  note t2 = input_errors_are_rejected[of rt0 ?noid env_secret world0, OF disjI2, OF disjI2, OF h3]
  from t1 t2 h1 h2 h3 show ?thesis by blast
qed

text \<open>
  C8. The freshness check accepts a timestamp exactly when the event age, the current
  time minus the timestamp, is at least 0 and at most 300000 ms: a timestamp in the future
  is rejected and so is one older than five minutes.
\<close>

theorem verifyTimestamp_iff:
  "verifyTimestamp now t = (0 \<le> now - t \<and> now - t \<le> 300000)"
  by (auto simp: verifyTimestamp_def maxAge_def Let_def)

text \<open>
  C9. A ledger row with status \<open>synced\<close> has a \<open>last_sync_at\<close> and no error message. Every
  operation of the sync service that writes the ledger keeps it so (\<open>syncContact\<close>,
  \<open>syncSingleContact\<close>, \<open>syncColdContacts\<close>, \<open>markAsCustomer\<close>), and so no sequence of them
  from an empty ledger, interleaved with any change of the environment, reaches a \<open>synced\<close>
  row without a timestamp or with an error.
\<close>

theorem synced_rows_invariant:
  "(synced_rows_ok w \<longrightarrow>
      synced_rows_ok (snd (syncContact g res b w)) \<and>
      synced_rows_ok (snd (syncSingleContact gid d w)) \<and>
      synced_rows_ok (snd (syncColdContacts w)) \<and>
      synced_rows_ok (markAsCustomer gid w)) \<and>
   (reachable w \<longrightarrow> ledger w gid = Some row \<longrightarrow> sync_status row = Synced \<longrightarrow>
      last_sync_at row \<noteq> None \<and> error_message row = None)"
proof -
  have "last_sync_at row \<noteq> None \<and> error_message row = None"
    if "reachable w" "ledger w gid = Some row" "sync_status row = Synced"
    using reachable_ok[OF that(1)] that(2,3) by (auto simp: synced_rows_ok_def row_ok_def)
  then show ?thesis
    using syncContact_ok syncSingleContact_ok syncColdContacts_ok markAsCustomer_ok by blast
qed

theorem synced_rows_invariant_witness:
  "synced_rows_ok world0 \<and> synced_rows_ok once \<and> reachable once \<and>
   (\<exists>row. ledger once ''c1'' = Some row \<and> sync_status row = Synced \<and>
      last_sync_at row = Some 1700000000000 \<and> error_message row = None)"
proof -
  have h0: "synced_rows_ok world0" by (simp add: synced_rows_ok_def world0_def)
  have r0: "reachable world0" by (rule reachable.empty_ledger) (simp add: world0_def)
  have r1: "reachable once" unfolding once_def by (rule reachable.single[OF r0])
  have l: "map_option (\<lambda>row. (sync_status row, last_sync_at row, error_message row))
             (ledger once ''c1'') = Some (Synced, Some 1700000000000, None)"
    by code_simp
  show ?thesis
    using synced_rows_invariant[of world0 "cold_contact ''c1'' None" result0 "[]" "''c1''"
        "Some (payload ''c1'' ''cold lead'' ''+15551234567'')"] h0 r1 l
    by (auto simp: once_def)
qed



end
